theory Spec2Isabelle
  imports Complex_Main
begin

section \<open>JavaScript numbers\<close>

text \<open>
  The component computes with JavaScript numbers.  A number is modelled as an exact
  rational or one of the three special values of IEEE-754 arithmetic, so that every
  division by zero of the source is a branch of the model: \<open>0 / 0\<close> and \<open>x % 0\<close> are
  \<open>NaN\<close>, \<open>x / 0\<close> is an infinity.  Finite results are exact: rounding to 53 bits and
  overflow are not modelled, and neither is the sign of zero (a zero divisor counts as
  \<open>+0\<close>).  A sum, product, quotient or remainder of the model is therefore the one of
  the code only where the code's result is exact; the results below either are about
  exact arithmetic by their statement, or evaluate the code at concrete inputs where
  double arithmetic returns the same values, or restrict the operands to where double
  arithmetic decides as exact arithmetic does.
\<close>

datatype number = Fin rat | NaN | PosInfinity | NegInfinity

fun is_neg :: "number \<Rightarrow> bool" where
  "is_neg (Fin a) = (a < 0)"
| "is_neg NegInfinity = True"
| "is_neg _ = False"

definition signed_inf :: "bool \<Rightarrow> number" where
  "signed_inf neg = (if neg then NegInfinity else PosInfinity)"

text \<open>Truncation toward zero, as in the remainder operator \<open>%\<close>.\<close>

definition trunc_rat :: "rat \<Rightarrow> int" where
  "trunc_rat q = (if 0 \<le> q then \<lfloor>q\<rfloor> else \<lceil>q\<rceil>)"

instantiation number :: "{uminus, plus, minus, times, inverse, modulo, ord}"
begin

fun uminus_number :: "number \<Rightarrow> number" where
  "uminus_number (Fin a) = Fin (- a)"
| "uminus_number NaN = NaN"
| "uminus_number PosInfinity = NegInfinity"
| "uminus_number NegInfinity = PosInfinity"

fun plus_number :: "number \<Rightarrow> number \<Rightarrow> number" where
  "plus_number NaN _ = NaN"
| "plus_number _ NaN = NaN"
| "plus_number (Fin a) (Fin b) = Fin (a + b)"
| "plus_number PosInfinity NegInfinity = NaN"
| "plus_number NegInfinity PosInfinity = NaN"
| "plus_number PosInfinity _ = PosInfinity"
| "plus_number _ PosInfinity = PosInfinity"
| "plus_number NegInfinity _ = NegInfinity"
| "plus_number _ NegInfinity = NegInfinity"

definition minus_number :: "number \<Rightarrow> number \<Rightarrow> number" where
  "minus_number a b = a + (- b)"

fun times_number :: "number \<Rightarrow> number \<Rightarrow> number" where
  "times_number NaN _ = NaN"
| "times_number _ NaN = NaN"
| "times_number (Fin a) (Fin b) = Fin (a * b)"
| "times_number a b =
     (if a = Fin 0 \<or> b = Fin 0 then NaN else signed_inf (is_neg a \<noteq> is_neg b))"

fun divide_number :: "number \<Rightarrow> number \<Rightarrow> number" where
  "divide_number NaN _ = NaN"
| "divide_number _ NaN = NaN"
| "divide_number (Fin a) (Fin b) =
     (if b \<noteq> 0 then Fin (a / b) else if a = 0 then NaN else signed_inf (a < 0))"
| "divide_number (Fin a) _ = Fin 0"
| "divide_number a (Fin b) = signed_inf (is_neg a \<noteq> (b < 0))"
| "divide_number _ _ = NaN"

definition inverse_number :: "number \<Rightarrow> number" where
  "inverse_number a = divide (Fin 1) a"

text \<open>The remainder \<open>a % b\<close> has the sign of the dividend.\<close>

fun modulo_number :: "number \<Rightarrow> number \<Rightarrow> number" where
  "modulo_number NaN _ = NaN"
| "modulo_number _ NaN = NaN"
| "modulo_number (Fin a) (Fin b) =
     (if b = 0 then NaN else Fin (a - b * of_int (trunc_rat (a / b))))"
| "modulo_number (Fin a) _ = Fin a"
| "modulo_number _ _ = NaN"

text \<open>Comparisons with \<open>NaN\<close> are false.\<close>

fun less_eq_number :: "number \<Rightarrow> number \<Rightarrow> bool" where
  "less_eq_number NaN _ = False"
| "less_eq_number _ NaN = False"
| "less_eq_number (Fin a) (Fin b) = (a \<le> b)"
| "less_eq_number NegInfinity _ = True"
| "less_eq_number _ PosInfinity = True"
| "less_eq_number _ _ = False"

definition less_number :: "number \<Rightarrow> number \<Rightarrow> bool" where
  "less_number a b = (a \<le> b \<and> a \<noteq> b)"

instance ..

end

text \<open>\<open>a !== b\<close>: \<open>NaN\<close> differs from every number, itself included.\<close>

definition strict_ne :: "number \<Rightarrow> number \<Rightarrow> bool" where
  "strict_ne a b = (a = NaN \<or> b = NaN \<or> a \<noteq> b)"

text \<open>A number in a condition: \<open>0\<close> and \<open>NaN\<close> are falsy.\<close>

definition truthy :: "number \<Rightarrow> bool" where
  "truthy a = (a \<noteq> Fin 0 \<and> a \<noteq> NaN)"

text \<open>\<open>a || d\<close> on numbers.\<close>

definition or_else :: "number \<Rightarrow> number \<Rightarrow> number" where
  "or_else a d = (if truthy a then a else d)"

text \<open>\<open>Math.round\<close> rounds to the nearest integer, a half toward \<open>+\<infinity>\<close>.\<close>

fun Math_round :: "number \<Rightarrow> number" where
  "Math_round (Fin a) = Fin (of_int \<lfloor>a + 1 / 2\<rfloor>)"
| "Math_round a = a"

definition Math_max :: "number \<Rightarrow> number \<Rightarrow> number" where
  "Math_max a b = (if a = NaN \<or> b = NaN then NaN else if b \<le> a then a else b)"

definition Math_min :: "number \<Rightarrow> number \<Rightarrow> number" where
  "Math_min a b = (if a = NaN \<or> b = NaN then NaN else if a \<le> b then a else b)"

section \<open>The Slider component\<close>

subsection \<open>Constants, props and instance fields\<close>

definition THUMB_SCALE_RATIO :: number where
  "THUMB_SCALE_RATIO = Fin (13 / 10)"

definition THUMB_BORDER_WIDTH :: number where
  "THUMB_BORDER_WIDTH = Fin 2"

definition TRACK_EXTRA_MARGIN_V :: number where
  "TRACK_EXTRA_MARGIN_V = Fin 5"

definition TRACK_EXTRA_MARGIN_H :: number where
  "TRACK_EXTRA_MARGIN_H = Fin 5"

text \<open>
  \<open>SliderProps\<close>.  The fields \<open>min\<close>, \<open>max\<close> and \<open>value\<close> carry the suffix \<open>_p\<close>; an
  optional callback is the flag whether it is given; the colours and the style play no
  part in the logic.
\<close>

record SliderProps =
  min_p :: number
  max_p :: number
  value_p :: number
  trackSize :: number
  thumbRadius :: number
  thumbPadding :: number
  step :: number
  onChange :: bool
  onPressIn :: bool
  onPressOut :: bool
  onConfirm :: bool

definition defaultProps :: SliderProps where
  "defaultProps =
     \<lparr>min_p = Fin 0, max_p = Fin 100, value_p = Fin 0, trackSize = Fin 2,
      thumbRadius = Fin 6, thumbPadding = Fin 0, step = Fin 1,
      onChange = False, onPressIn = False, onPressOut = False, onConfirm = False\<rparr>"

text \<open>
  What the component does to the outside, in order: the callbacks of the props it
  invokes and the directives it sends to the thumb.
\<close>

datatype effect =
    OnChange number
  | OnPressIn
  | OnPressOut
  | OnConfirm number
  | ThumbMoveTo number
  | ThumbConfirmMoveTo

text \<open>
  The instance fields of the class.  \<open>stored_value\<close> is \<open>_value\<close>; \<open>thumbRef\<close> tells
  whether \<open>thumbRef.current\<close> is set; \<open>animatedTrackLength\<close> is the value of the
  animated length of the lower track, which a timing of duration 0 assigns at once;
  \<open>effects\<close> is the trace of callbacks and thumb directives so far.
\<close>

record Slider =
  stored_value :: number
  trackMarginH :: number
  trackMarginV :: number
  trackTotalLength :: number
  thumbRadiiWithBorder :: number
  prevPointerX :: number
  animatedTrackLength :: number
  thumbRef :: bool
  effects :: "effect list"

definition initial :: Slider where
  "initial =
     \<lparr>stored_value = Fin 0, trackMarginH = Fin 0, trackMarginV = Fin 0,
      trackTotalLength = Fin 0, thumbRadiiWithBorder = Fin 0, prevPointerX = Fin 0,
      animatedTrackLength = Fin 0, thumbRef = False, effects = []\<rparr>"

datatype touch_type = TOUCH_DOWN | TOUCH_MOVE | TOUCH_UP | TOUCH_CANCEL

record TouchEvent =
  evt_type :: touch_type
  evt_x :: number

datatype error = StepNotDivisor number number

record view =
  marginLeft :: number
  marginTop :: number
  thumbTop :: number

subsection \<open>Emitting callbacks and moving the thumb\<close>

definition emit :: "effect \<Rightarrow> Slider \<Rightarrow> Slider" where
  "emit e s = s\<lparr>effects := effects s @ [e]\<rparr>"

definition emitChange :: "SliderProps \<Rightarrow> number \<Rightarrow> Slider \<Rightarrow> Slider" where
  "emitChange p newValue s = (if onChange p then emit (OnChange newValue) s else s)"

definition emitOnPressIn :: "SliderProps \<Rightarrow> Slider \<Rightarrow> Slider" where
  "emitOnPressIn p s = (if onPressIn p then emit OnPressIn s else s)"

definition emitOnPressOut :: "SliderProps \<Rightarrow> Slider \<Rightarrow> Slider" where
  "emitOnPressOut p s = (if onPressOut p then emit OnPressOut s else s)"

definition emitConfirm :: "SliderProps \<Rightarrow> Slider \<Rightarrow> Slider" where
  "emitConfirm p s = (if onConfirm p then emit (OnConfirm (stored_value s)) s else s)"

definition internalSetValue :: "SliderProps \<Rightarrow> number \<Rightarrow> bool \<Rightarrow> Slider \<Rightarrow> Slider" where
  "internalSetValue p v fireChange s =
     (if strict_ne (stored_value s) v
      then (let s1 = s\<lparr>stored_value := v\<rparr> in if fireChange then emitChange p v s1 else s1)
      else s)"

definition moveThumb :: "number \<Rightarrow> Slider \<Rightarrow> Slider" where
  "moveThumb x s =
     (let s1 = (if thumbRef s then emit (ThumbMoveTo x) s else s)
      in s1\<lparr>animatedTrackLength := x\<rparr>)"

definition confirmMoveThumb :: "Slider \<Rightarrow> Slider" where
  "confirmMoveThumb s = (if thumbRef s then emit ThumbConfirmMoveTo s else s)"

definition aniUpdateValue :: "SliderProps \<Rightarrow> number \<Rightarrow> Slider \<Rightarrow> Slider" where
  "aniUpdateValue p v s =
     (if truthy (trackTotalLength s)
      then (let ratio = (v - min_p p) / (max_p p - min_p p);
                x = ratio * trackTotalLength s
            in confirmMoveThumb (moveThumb x s))
      else s)"

subsection \<open>Coordinate mapping and snapping\<close>

definition toSliderScale :: "SliderProps \<Rightarrow> Slider \<Rightarrow> number \<Rightarrow> number" where
  "toSliderScale p s v =
     (let trackToRange = (max_p p - min_p p) / trackTotalLength s
      in v * trackToRange + min_p p)"

definition toPixelScale :: "SliderProps \<Rightarrow> Slider \<Rightarrow> number \<Rightarrow> number" where
  "toPixelScale p s v =
     (let rangeToTrack = trackTotalLength s / (max_p p - min_p p)
      in (v - min_p p) * rangeToTrack)"

definition defaultStepIncrement :: "SliderProps \<Rightarrow> Slider \<Rightarrow> number" where
  "defaultStepIncrement p s =
     toPixelScale p s (max_p p) / (max_p p - min_p p) / or_else (step p) (Fin 1)"

definition snap :: "number \<Rightarrow> number \<Rightarrow> number" where
  "snap val inc =
     (let current = Math_round val;
          half = inc * Fin (1 / 2);
          diff = current mod inc
      in if half \<le> diff
         then (let multiplier = Math_round (current / inc) in inc * multiplier)
         else current - diff)"

definition getTouchOnTrack :: "SliderProps \<Rightarrow> TouchEvent \<Rightarrow> Slider \<Rightarrow> number \<times> number" where
  "getTouchOnTrack p evt s =
     (let x0 = Math_max (evt_x evt - trackMarginH s) (Fin 0);
          x = snap (Math_min x0 (trackTotalLength s)) (defaultStepIncrement p s);
          ratio = x / trackTotalLength s
      in (x, ratio))"

subsection \<open>Touch handling\<close>

definition updateValueByTouch :: "SliderProps \<Rightarrow> TouchEvent \<Rightarrow> Slider \<Rightarrow> Slider" where
  "updateValueByTouch p evt s =
     (let (x, ratio) = getTouchOnTrack p evt s;
          v = ratio * (max_p p - min_p p) + min_p p
      in moveThumb x (internalSetValue p v True s))"

definition confirmUpdateValueByTouch :: "SliderProps \<Rightarrow> Slider \<Rightarrow> Slider" where
  "confirmUpdateValueByTouch p s = emitConfirm p (confirmMoveThumb s)"

definition onTouchEvent :: "SliderProps \<Rightarrow> TouchEvent \<Rightarrow> Slider \<Rightarrow> Slider" where
  "onTouchEvent p evt s =
     (case evt_type evt of
        TOUCH_DOWN \<Rightarrow> updateValueByTouch p evt (emitOnPressIn p s)
      | TOUCH_MOVE \<Rightarrow> updateValueByTouch p evt s
      | TOUCH_UP \<Rightarrow> confirmUpdateValueByTouch p (emitOnPressOut p s)
      | TOUCH_CANCEL \<Rightarrow> confirmUpdateValueByTouch p (emitOnPressOut p s))"

definition onPanResponderEnd :: "SliderProps \<Rightarrow> number \<Rightarrow> bool \<Rightarrow> Slider \<Rightarrow> Slider" where
  "onPanResponderEnd p dx cancelled s =
     (let s1 = (if \<not> cancelled then s\<lparr>prevPointerX := prevPointerX s + dx\<rparr> else s)
      in onTouchEvent p
           \<lparr>evt_type = (if cancelled then TOUCH_CANCEL else TOUCH_UP),
            evt_x = prevPointerX s1\<rparr> s1)"

text \<open>
  The handlers given to the pan responder: \<open>locationX\<close> is the pointer offset of the
  grant event, \<open>dx\<close> the distance of the gesture state from where the gesture began.
\<close>

definition onPanResponderGrant :: "SliderProps \<Rightarrow> number \<Rightarrow> Slider \<Rightarrow> Slider" where
  "onPanResponderGrant p locationX s =
     (let s1 = s\<lparr>prevPointerX := locationX\<rparr>
      in onTouchEvent p \<lparr>evt_type = TOUCH_DOWN, evt_x = prevPointerX s1\<rparr> s1)"

definition onPanResponderMove :: "SliderProps \<Rightarrow> number \<Rightarrow> Slider \<Rightarrow> Slider" where
  "onPanResponderMove p dx s =
     onTouchEvent p \<lparr>evt_type = TOUCH_MOVE, evt_x = prevPointerX s + dx\<rparr> s"

definition onPanResponderRelease :: "SliderProps \<Rightarrow> number \<Rightarrow> Slider \<Rightarrow> Slider" where
  "onPanResponderRelease p dx s = onPanResponderEnd p dx False s"

definition onPanResponderTerminate :: "SliderProps \<Rightarrow> number \<Rightarrow> Slider \<Rightarrow> Slider" where
  "onPanResponderTerminate p dx s = onPanResponderEnd p dx True s"

subsection \<open>Public value, lifecycle, layout and render\<close>

definition set_value :: "SliderProps \<Rightarrow> number \<Rightarrow> Slider \<Rightarrow> Slider" where
  "set_value p v s = aniUpdateValue p v (internalSetValue p v True s)"

definition get_value :: "Slider \<Rightarrow> number" where
  "get_value s = stored_value s"

definition onThumbRadiiUpdate :: "SliderProps \<Rightarrow> Slider \<Rightarrow> Slider" where
  "onThumbRadiiUpdate props s =
     (let radii = or_else (thumbRadius props) (Fin 6) + THUMB_BORDER_WIDTH
      in s\<lparr>thumbRadiiWithBorder := radii,
            trackMarginV :=
              radii * THUMB_SCALE_RATIO + TRACK_EXTRA_MARGIN_V
                - or_else (trackSize props) (Fin 2) / Fin 2,
            trackMarginH := radii * THUMB_SCALE_RATIO + TRACK_EXTRA_MARGIN_H\<rparr>)"

definition componentWillMount :: "SliderProps \<Rightarrow> Slider \<Rightarrow> Slider" where
  "componentWillMount p s = internalSetValue p (value_p p) False (onThumbRadiiUpdate p s)"

text \<open>
  \<open>p\<close> are the props in force (\<open>this.props\<close>, which \<open>_aniUpdateValue\<close> reads) when the
  next props arrive.
\<close>

definition componentWillReceiveProps :: "SliderProps \<Rightarrow> SliderProps \<Rightarrow> Slider \<Rightarrow> Slider" where
  "componentWillReceiveProps p nextProps s =
     aniUpdateValue p (value_p nextProps)
       (internalSetValue p (value_p nextProps) False (onThumbRadiiUpdate nextProps s))"

definition onTrackLayout :: "SliderProps \<Rightarrow> number \<Rightarrow> Slider \<Rightarrow> Slider" where
  "onTrackLayout p width s =
     (if strict_ne (trackTotalLength s) width
      then (let s1 = s\<lparr>trackTotalLength := width\<rparr> in aniUpdateValue p (get_value s1) s1)
      else s)"

definition verifyStep :: "SliderProps \<Rightarrow> error + unit" where
  "verifyStep p =
     (let divisor = max_p p / or_else (step p) (Fin 1)
      in if strict_ne (divisor mod Fin 1) (Fin 0)
         then Inl (StepNotDivisor (step p) (max_p p))
         else Inr ())"

definition render :: "SliderProps \<Rightarrow> Slider \<Rightarrow> error + view" where
  "render p s =
     (case verifyStep p of
        Inl e \<Rightarrow> Inl e
      | Inr _ \<Rightarrow>
          Inr \<lparr>marginLeft = trackMarginH s, marginTop = trackMarginV s,
               thumbTop =
                 thumbRadiiWithBorder s * (THUMB_SCALE_RATIO - Fin 1) + TRACK_EXTRA_MARGIN_V\<rparr>)"

subsection \<open>A mounted slider\<close>

text \<open>
  All four callbacks given, otherwise the default props; the component mounted (the
  thumb reference set) and the track measured at \<open>w\<close> pixels.
\<close>

definition observedProps :: SliderProps where
  "observedProps =
     defaultProps\<lparr>onChange := True, onPressIn := True, onPressOut := True,
                  onConfirm := True\<rparr>"

definition mounted :: "SliderProps \<Rightarrow> number \<Rightarrow> Slider" where
  "mounted p w =
     (onTrackLayout p w ((componentWillMount p initial)\<lparr>thumbRef := True\<rparr>))\<lparr>effects := []\<rparr>"

subsection \<open>Gesture sessions\<close>

text \<open>
  The events of the gesture source, each with the number its handler receives, and a
  session as the handlers run in order.
\<close>

datatype gesture = Grant number | Move number | Release number | Terminate number

fun handle :: "SliderProps \<Rightarrow> gesture \<Rightarrow> Slider \<Rightarrow> Slider" where
  "handle p (Grant locationX) s = onPanResponderGrant p locationX s"
| "handle p (Move dx) s = onPanResponderMove p dx s"
| "handle p (Release dx) s = onPanResponderRelease p dx s"
| "handle p (Terminate dx) s = onPanResponderTerminate p dx s"

fun run :: "SliderProps \<Rightarrow> gesture list \<Rightarrow> Slider \<Rightarrow> Slider" where
  "run p [] s = s"
| "run p (g # gs) s = run p gs (handle p g s)"

text \<open>The values passed to \<open>onChange\<close> and to \<open>onConfirm\<close>, in order.\<close>

fun changes :: "effect list \<Rightarrow> number list" where
  "changes [] = []"
| "changes (OnChange v # es) = v # changes es"
| "changes (_ # es) = changes es"

fun confirms :: "effect list \<Rightarrow> number list" where
  "confirms [] = []"
| "confirms (OnConfirm v # es) = v # confirms es"
| "confirms (_ # es) = confirms es"

section \<open>Arithmetic on finite numbers\<close>

lemma minus_Fin [simp]: "Fin a - Fin b = Fin (a - b)"
  by (simp add: minus_number_def)

lemma strict_ne_Fin [simp]: "strict_ne (Fin a) (Fin b) = (a \<noteq> b)"
  by (simp add: strict_ne_def)

lemma strict_ne_Fin_right: "strict_ne x (Fin b) = (x \<noteq> Fin b)"
  by (cases x) (simp_all add: strict_ne_def)

lemma truthy_Fin [simp]: "truthy (Fin a) = (a \<noteq> 0)"
  by (simp add: truthy_def)

lemma or_else_Fin [simp]: "a \<noteq> 0 \<Longrightarrow> or_else (Fin a) d = Fin a"
  by (simp add: or_else_def)

lemma Math_max_Fin [simp]: "Math_max (Fin a) (Fin b) = Fin (max a b)"
  by (simp add: Math_max_def max_def)

lemma Math_min_Fin [simp]: "Math_min (Fin a) (Fin b) = Fin (min a b)"
  by (simp add: Math_min_def min_def)

lemma changes_append [simp]: "changes (es @ fs) = changes es @ changes fs"
  by (induction es rule: changes.induct) simp_all

lemma confirms_append [simp]: "confirms (es @ fs) = confirms es @ confirms fs"
  by (induction es rule: confirms.induct) simp_all

section \<open>The mounted slider of the examples\<close>

lemma mounted_default: "mounted observedProps (Fin 100) =
     \<lparr>stored_value = Fin 0, trackMarginH = Fin (77 / 5), trackMarginV = Fin (72 / 5),
      trackTotalLength = Fin 100, thumbRadiiWithBorder = Fin 8, prevPointerX = Fin 0,
      animatedTrackLength = Fin 0, thumbRef = True, effects = []\<rparr>"
  by code_simp

lemma observedProps_fields [simp]:
  "min_p observedProps = Fin 0" "max_p observedProps = Fin 100" "step observedProps = Fin 1"
  "value_p observedProps = Fin 0"
  "onChange observedProps" "onPressIn observedProps" "onPressOut observedProps"
  "onConfirm observedProps"
  by (simp_all add: observedProps_def defaultProps_def)

section \<open>C1: the public value setter\<close>

text \<open>
  C1, as stated, fails.  On a mounted slider with a 100 pixel track, range [0, 100] and
  stored value 0, assigning 50 through the setter moves the thumb to pixel 50, but it
  invokes \<open>onChange\<close> with 50 and never \<open>onConfirm\<close>: the setter calls
  \<open>_internalSetValue\<close> with \<open>fireChange\<close> left at its default, and \<open>_aniUpdateValue\<close> ends
  with the thumb's \<open>confirmMoveTo\<close>, not with \<open>_emitConfirm\<close>.
\<close>

theorem set_value_fires_change_not_confirm:
  "effects (set_value observedProps (Fin 50) (mounted observedProps (Fin 100)))
     = [OnChange (Fin 50), ThumbMoveTo (Fin 50), ThumbConfirmMoveTo]
   \<and> changes (effects (set_value observedProps (Fin 50) (mounted observedProps (Fin 100))))
     = [Fin 50]
   \<and> confirms (effects (set_value observedProps (Fin 50) (mounted observedProps (Fin 100))))
     = []"
  by code_simp

text \<open>
  C1, amended.  With a track of \<open>T > 0\<close> pixels and range [0, 100], assigning 50 through
  the setter stores 50 and moves the thumb to \<open>T / 2\<close>, the 50% mark (\<open>moveTo\<close>, then
  \<open>confirmMoveTo\<close>, when the thumb is mounted); it invokes \<open>onChange\<close> with 50 when the
  callback is given and the stored value was not 50 already; it invokes nothing else, so
  never \<open>onConfirm\<close>.
\<close>

theorem set_value_repositions_and_reports_change:
  assumes "trackTotalLength s = Fin T" and "0 < T"
    and "min_p p = Fin 0" and "max_p p = Fin 100"
  shows "set_value p (Fin 50) s =
     s\<lparr>stored_value := Fin 50, animatedTrackLength := Fin (T / 2),
       effects := effects s
         @ (if onChange p \<and> stored_value s \<noteq> Fin 50 then [OnChange (Fin 50)] else [])
         @ (if thumbRef s then [ThumbMoveTo (Fin (T / 2)), ThumbConfirmMoveTo] else [])\<rparr>"
  using assms
  by (simp add: set_value_def internalSetValue_def aniUpdateValue_def emitChange_def emit_def
      moveThumb_def confirmMoveThumb_def strict_ne_Fin_right Let_def)

text \<open>The amended C1 on the mounted slider with a 100 pixel track.\<close>

theorem set_value_repositions_and_reports_change_witness:
  "set_value observedProps (Fin 50) (mounted observedProps (Fin 100)) =
     (mounted observedProps (Fin 100))\<lparr>stored_value := Fin 50, animatedTrackLength := Fin 50,
       effects := [OnChange (Fin 50), ThumbMoveTo (Fin 50), ThumbConfirmMoveTo]\<rparr>"
  using set_value_repositions_and_reports_change
    [of "mounted observedProps (Fin 100)" 100 observedProps]
  by (simp add: mounted_default)

section \<open>C2: the snap increment\<close>

lemma defaultStepIncrement_Fin:
  assumes "trackTotalLength s = Fin T" and "min_p p = Fin a" and "max_p p = Fin b"
    and "step p = Fin st" and "a < b" and "0 < st"
  shows "defaultStepIncrement p s = Fin (T / ((b - a) * st))"
  using assms by (simp add: defaultStepIncrement_def toPixelScale_def)

text \<open>
  C2: the snap increment is meant to be one step's width in pixels, and the code misses
  it.  With range [0, 100], step 2 and a 100 pixel track, one step is 2 pixels wide, and
  \<open>_defaultStepIncrement\<close> is half a pixel: it divides the width of one unit by the step
  where one step's width is their product.  A touch at pointer offset 50 then stores 35,
  which is no multiple of the step.
\<close>

theorem step_increment_is_not_step_width:
  "defaultStepIncrement (observedProps\<lparr>step := Fin 2\<rparr>) (mounted observedProps (Fin 100))
     = Fin (1 / 2)
   \<and> step (observedProps\<lparr>step := Fin 2\<rparr>) * trackTotalLength (mounted observedProps (Fin 100))
        / (max_p (observedProps\<lparr>step := Fin 2\<rparr>) - min_p (observedProps\<lparr>step := Fin 2\<rparr>))
     = Fin 2
   \<and> stored_value (onPanResponderGrant (observedProps\<lparr>step := Fin 2\<rparr>) (Fin 50)
        (mounted observedProps (Fin 100))) = Fin 35"
  by code_simp

section \<open>C3: before the first layout measurement\<close>

text \<open>
  C3, as stated, fails.  On a mounted slider whose track length is still 0 the stored
  value is 0; assigning 50 through the setter stores 50.  A touch in that state is not
  skipped either: the snap increment is 0, \<open>0 % 0\<close> is \<open>NaN\<close>, and the touch stores
  \<open>NaN\<close> and passes it to \<open>onChange\<close> and to the thumb.
\<close>

theorem zero_length_is_not_a_no_op:
  "trackTotalLength (mounted observedProps (Fin 0)) = Fin 0
   \<and> stored_value (mounted observedProps (Fin 0)) = Fin 0
   \<and> stored_value (set_value observedProps (Fin 50) (mounted observedProps (Fin 0))) = Fin 50
   \<and> stored_value (onPanResponderGrant observedProps (Fin 20) (mounted observedProps (Fin 0)))
       = NaN
   \<and> effects (onPanResponderGrant observedProps (Fin 20) (mounted observedProps (Fin 0)))
       = [OnPressIn, OnChange NaN, ThumbMoveTo NaN]"
  by code_simp

text \<open>
  C3, amended.  While the track length is 0, the value-to-pixel reposition
  (\<open>_aniUpdateValue\<close>) is a no-op: an external value assignment and a value-prop update
  reduce to storing the value, send nothing to the thumb and invoke no \<open>onConfirm\<close>; the
  setter still invokes \<open>onChange\<close> with the assigned value when it differs from the
  stored one, the prop update invokes nothing; a layout report of width 0 changes
  nothing.  Touch events in that state are left out.
\<close>

theorem zero_length_skips_reposition:
  assumes "trackTotalLength s = Fin 0"
  shows "aniUpdateValue p v s = s
    \<and> set_value p v s = internalSetValue p v True s
    \<and> effects (set_value p v s)
        = effects s @ (if onChange p \<and> strict_ne (stored_value s) v then [OnChange v] else [])
    \<and> componentWillReceiveProps p nextProps s
        = internalSetValue p (value_p nextProps) False (onThumbRadiiUpdate nextProps s)
    \<and> effects (componentWillReceiveProps p nextProps s) = effects s
    \<and> onTrackLayout p (Fin 0) s = s"
  using assms
  by (simp add: set_value_def internalSetValue_def aniUpdateValue_def emitChange_def emit_def
      componentWillReceiveProps_def onThumbRadiiUpdate_def onTrackLayout_def Let_def)

text \<open>The amended C3 on the mounted slider whose track is not measured yet.\<close>

theorem zero_length_skips_reposition_witness:
  "set_value observedProps (Fin 50) (mounted observedProps (Fin 0))
     = (mounted observedProps (Fin 0))\<lparr>stored_value := Fin 50, effects := [OnChange (Fin 50)]\<rparr>
   \<and> onTrackLayout observedProps (Fin 0) (mounted observedProps (Fin 0))
     = mounted observedProps (Fin 0)"
proof -
  have m: "mounted observedProps (Fin 0) =
     \<lparr>stored_value = Fin 0, trackMarginH = Fin (77 / 5), trackMarginV = Fin (72 / 5),
      trackTotalLength = Fin 0, thumbRadiiWithBorder = Fin 8, prevPointerX = Fin 0,
      animatedTrackLength = Fin 0, thumbRef = True, effects = []\<rparr>"
    by code_simp
  have t: "trackTotalLength (mounted observedProps (Fin 0)) = Fin 0"
    by (simp add: m)
  show ?thesis
    using zero_length_skips_reposition [OF t, of observedProps "Fin 50"]
    by (simp add: m internalSetValue_def emitChange_def emit_def)
qed

section \<open>C4: cancellation\<close>

lemma run_append: "run p (gs @ hs) s = run p hs (run p gs s)"
  by (induction gs arbitrary: s) simp_all

lemma terminate_effects:
  "onPanResponderTerminate p dx s =
     s\<lparr>effects := effects s
        @ (if onPressOut p then [OnPressOut] else [])
        @ (if thumbRef s then [ThumbConfirmMoveTo] else [])
        @ (if onConfirm p then [OnConfirm (stored_value s)] else [])\<rparr>"
  by (simp add: onPanResponderTerminate_def onPanResponderEnd_def onTouchEvent_def
      confirmUpdateValueByTouch_def emitConfirm_def emitOnPressOut_def confirmMoveThumb_def
      emit_def)

lemma release_effects:
  "onPanResponderRelease p dx s =
     s\<lparr>prevPointerX := prevPointerX s + dx,
       effects := effects s
        @ (if onPressOut p then [OnPressOut] else [])
        @ (if thumbRef s then [ThumbConfirmMoveTo] else [])
        @ (if onConfirm p then [OnConfirm (stored_value s)] else [])\<rparr>"
  by (simp add: onPanResponderRelease_def onPanResponderEnd_def onTouchEvent_def
      confirmUpdateValueByTouch_def emitConfirm_def emitOnPressOut_def confirmMoveThumb_def
      emit_def)

text \<open>
  C4, as stated, fails.  In the session DOWN(20), MOVE(+30), CANCEL(+999) on the mounted
  slider with a 100 pixel track the anchor stays 20, but the confirmed value is 35, the
  value stored by the MOVE at pointer offset 50; the value of the position at the
  anchor 20 is 5.  The CANCEL handler reads no position at all: it confirms the stored
  value.
\<close>

theorem cancel_confirms_last_move_not_anchor:
  "effects (run observedProps [Grant (Fin 20), Move (Fin 30), Terminate (Fin 999)]
       (mounted observedProps (Fin 100)))
     = [OnPressIn, OnChange (Fin 5), ThumbMoveTo (Fin 5), OnChange (Fin 35),
        ThumbMoveTo (Fin 35), OnPressOut, ThumbConfirmMoveTo, OnConfirm (Fin 35)]
   \<and> prevPointerX (run observedProps [Grant (Fin 20), Move (Fin 30), Terminate (Fin 999)]
       (mounted observedProps (Fin 100))) = Fin 20
   \<and> stored_value (run observedProps [Grant (Fin 20)] (mounted observedProps (Fin 100)))
     = Fin 5
   \<and> stored_value (run observedProps [Grant (Fin 20), Move (Fin 30)]
       (mounted observedProps (Fin 100))) = Fin 35"
  by code_simp

text \<open>
  C4, amended.  A CANCEL event ignores its delta: it leaves the anchor and the stored
  value as they are, and after the press-out it confirms the stored value, which is the
  one the last DOWN or MOVE left.  So for DOWN(20), MOVE(+30), CANCEL(dx), whatever
  \<open>dx\<close> is, the anchor stays 20 and the confirmed value is 35, the value of the last
  MOVE at pointer offset 50.
\<close>

theorem cancel_ignores_delta:
  "onPanResponderTerminate p dx s =
     s\<lparr>effects := effects s
        @ (if onPressOut p then [OnPressOut] else [])
        @ (if thumbRef s then [ThumbConfirmMoveTo] else [])
        @ (if onConfirm p then [OnConfirm (stored_value s)] else [])\<rparr>
   \<and> run observedProps [Grant (Fin 20), Move (Fin 30), Terminate dx]
       (mounted observedProps (Fin 100))
     = (run observedProps [Grant (Fin 20), Move (Fin 30)] (mounted observedProps (Fin 100)))
         \<lparr>effects := [OnPressIn, OnChange (Fin 5), ThumbMoveTo (Fin 5), OnChange (Fin 35),
             ThumbMoveTo (Fin 35), OnPressOut, ThumbConfirmMoveTo, OnConfirm (Fin 35)]\<rparr>"
proof -
  have two: "run observedProps [Grant (Fin 20), Move (Fin 30)] (mounted observedProps (Fin 100)) =
     \<lparr>stored_value = Fin 35, trackMarginH = Fin (77 / 5), trackMarginV = Fin (72 / 5),
      trackTotalLength = Fin 100, thumbRadiiWithBorder = Fin 8, prevPointerX = Fin 20,
      animatedTrackLength = Fin 35, thumbRef = True,
      effects = [OnPressIn, OnChange (Fin 5), ThumbMoveTo (Fin 5), OnChange (Fin 35),
             ThumbMoveTo (Fin 35)]\<rparr>"
    by code_simp
  have h: "run observedProps [Grant (Fin 20), Move (Fin 30), Terminate dx]
       (mounted observedProps (Fin 100))
     = onPanResponderTerminate observedProps dx
         (run observedProps [Grant (Fin 20), Move (Fin 30)] (mounted observedProps (Fin 100)))"
    using run_append [of observedProps "[Grant (Fin 20), Move (Fin 30)]" "[Terminate dx]"]
    by simp
  show ?thesis
    unfolding h terminate_effects two by simp
qed

section \<open>C5: live and confirmed updates of a session\<close>

text \<open>
  C5, as stated, fails.  In the session DOWN(0), MOVE(+50), MOVE(+10), UP on the mounted
  slider with a 100 pixel track, \<open>onChange\<close> is invoked twice, with 35 and then 0: the
  DOWN maps to 0, the value already stored, and is not reported, and each MOVE is placed
  at the anchor plus its delta, less the horizontal margin of 15.4 pixels.
\<close>

theorem session_reports_two_changes:
  "changes (effects (run observedProps
       [Grant (Fin 0), Move (Fin 50), Move (Fin 10), Release (Fin 10)]
       (mounted observedProps (Fin 100)))) = [Fin 35, Fin 0]"
  by code_simp

text \<open>
  C5, amended.  For the session DOWN(0), MOVE(+50), MOVE(+10), UP(dx) on a 100 pixel
  track with range [0, 100] and the default value, step and thumb radius, \<open>onChange\<close> is
  invoked exactly twice, with 35 for the first MOVE and 0 for the second (none for the
  DOWN, whose value 0 is the stored one), and \<open>onConfirm\<close> exactly once, last, after the
  press-out of the UP, with the stored value 0 of the final position.
\<close>

theorem session_live_and_confirm:
  "effects (run observedProps [Grant (Fin 0), Move (Fin 50), Move (Fin 10), Release dx]
       (mounted observedProps (Fin 100)))
    = [OnPressIn, ThumbMoveTo (Fin 0), OnChange (Fin 35), ThumbMoveTo (Fin 35),
       OnChange (Fin 0), ThumbMoveTo (Fin 0), OnPressOut, ThumbConfirmMoveTo,
       OnConfirm (Fin 0)]
   \<and> changes (effects (run observedProps
       [Grant (Fin 0), Move (Fin 50), Move (Fin 10), Release dx]
       (mounted observedProps (Fin 100)))) = [Fin 35, Fin 0]
   \<and> confirms (effects (run observedProps
       [Grant (Fin 0), Move (Fin 50), Move (Fin 10), Release dx]
       (mounted observedProps (Fin 100)))) = [Fin 0]"
proof -
  have three: "run observedProps [Grant (Fin 0), Move (Fin 50), Move (Fin 10)]
       (mounted observedProps (Fin 100)) =
     \<lparr>stored_value = Fin 0, trackMarginH = Fin (77 / 5), trackMarginV = Fin (72 / 5),
      trackTotalLength = Fin 100, thumbRadiiWithBorder = Fin 8, prevPointerX = Fin 0,
      animatedTrackLength = Fin 0, thumbRef = True,
      effects = [OnPressIn, ThumbMoveTo (Fin 0), OnChange (Fin 35), ThumbMoveTo (Fin 35),
       OnChange (Fin 0), ThumbMoveTo (Fin 0)]\<rparr>"
    by code_simp
  have h: "run observedProps [Grant (Fin 0), Move (Fin 50), Move (Fin 10), Release dx]
       (mounted observedProps (Fin 100))
     = onPanResponderRelease observedProps dx
         (run observedProps [Grant (Fin 0), Move (Fin 50), Move (Fin 10)]
            (mounted observedProps (Fin 100)))"
    using run_append
      [of observedProps "[Grant (Fin 0), Move (Fin 50), Move (Fin 10)]" "[Release dx]"]
    by simp
  show ?thesis
    unfolding h release_effects three by simp
qed

section \<open>C6: the configuration error\<close>

lemma mod_one_eq_0_iff: "(d - of_int (trunc_rat d) = (0::rat)) = (d \<in> \<int>)"
proof
  assume "d - of_int (trunc_rat d) = 0"
  then have "d = of_int (trunc_rat d)" by simp
  then show "d \<in> \<int>" by (metis Ints_of_int)
next
  assume "d \<in> \<int>"
  then obtain k :: int where "d = of_int k" by (auto elim: Ints_cases)
  then show "d - of_int (trunc_rat d) = 0" by (simp add: trunc_rat_def)
qed

lemma verifyStep_Fin:
  assumes "max_p p = Fin m" and "step p = Fin st"
  shows "verifyStep p =
      (if m / (if st = 0 then 1 else st) \<in> \<int> then Inr ()
       else Inl (StepNotDivisor (Fin st) (Fin m)))"
proof (cases "st = 0")
  case True
  then show ?thesis
    using assms mod_one_eq_0_iff [of m] by (simp add: verifyStep_def or_else_def)
next
  case False
  then show ?thesis
    using assms mod_one_eq_0_iff [of "m / st"] by (simp add: verifyStep_def)
qed

text \<open>
  C6, as stated, fails.  With \<open>max = 100\<close> and \<open>step = 0\<close> the quotient \<open>max / step\<close> is
  \<open>Infinity\<close>, which is no integer, and the render returns its view: \<open>_verifyStep\<close>
  divides by \<open>step || 1\<close>, so a step of 0 counts as 1.
\<close>

theorem zero_step_renders:
  "render (defaultProps\<lparr>step := Fin 0\<rparr>) initial
     = Inr \<lparr>marginLeft = Fin 0, marginTop = Fin 0, thumbTop = Fin 5\<rparr>
   \<and> max_p (defaultProps\<lparr>step := Fin 0\<rparr>) / step (defaultProps\<lparr>step := Fin 0\<rparr>) = PosInfinity"
  by code_simp

text \<open>
  C6, amended.  Rendering raises the configuration error exactly when
  \<open>max / (step || 1)\<close> is not an integer, a step of 0 counting as 1 (so that an integer
  \<open>max\<close> with step 0 renders), and returns a view exactly when it is.  The check is made
  anew by every render: the result holds for every state, and nothing of an earlier
  render is remembered.  With \<open>max = 100\<close>, step 3 raises and step 4 does not.  The
  statement is for \<open>max\<close> and \<open>step\<close> integers of magnitude below \<open>2 ^ 53\<close>: these are
  doubles, and their quotient in double arithmetic is an integer exactly when the exact
  quotient is; for other operands the rounded quotient of the code can differ from the
  exact one of this model.
\<close>

theorem render_raises_iff_quotient_not_integer:
  assumes "max_p p = Fin m" and "step p = Fin st"
    and "m \<in> \<int>" and "st \<in> \<int>" and "\<bar>m\<bar> < 2 ^ 53" and "\<bar>st\<bar> < 2 ^ 53"
  shows "(render p s = Inl (StepNotDivisor (Fin st) (Fin m)))
        = (m / (if st = 0 then 1 else st) \<notin> \<int>)
    \<and> (\<exists>v. render p s = Inr v) = (m / (if st = 0 then 1 else st) \<in> \<int>)
    \<and> (st = 0 \<longrightarrow> (\<exists>v. render p s = Inr v))
    \<and> render (defaultProps\<lparr>step := Fin 3\<rparr>) s = Inl (StepNotDivisor (Fin 3) (Fin 100))
    \<and> (\<exists>v. render (defaultProps\<lparr>step := Fin 4\<rparr>) s = Inr v)"
proof -
  note v = verifyStep_Fin [OF assms(1,2)]
  have "(100::rat) / 3 - of_int (trunc_rat (100 / 3)) \<noteq> 0" by code_simp
  then have v3: "verifyStep (defaultProps\<lparr>step := Fin 3\<rparr>)
      = Inl (StepNotDivisor (Fin 3) (Fin 100))"
    by (simp add: verifyStep_def defaultProps_def)
  have "(100::rat) / 4 - of_int (trunc_rat (100 / 4)) = 0" by code_simp
  then have v4: "verifyStep (defaultProps\<lparr>step := Fin 4\<rparr>) = Inr ()"
    by (simp add: verifyStep_def defaultProps_def)
  show ?thesis
    using assms(3) by (simp add: render_def v v3 v4)
qed

text \<open>The amended C6 at \<open>max = 7\<close>, \<open>step = 2\<close>, which raises, and at step 0, which renders.\<close>

theorem render_raises_iff_quotient_not_integer_witness:
  "render (defaultProps\<lparr>max_p := Fin 7, step := Fin 2\<rparr>) initial
      = Inl (StepNotDivisor (Fin 2) (Fin 7))
   \<and> (\<exists>v. render (defaultProps\<lparr>step := Fin 0\<rparr>) initial = Inr v)"
proof -
  have "(7::rat) / 2 \<notin> \<int>"
  proof
    assume "(7::rat) / 2 \<in> \<int>"
    then obtain k :: int where "(7::rat) / 2 = of_int k" by (auto elim: Ints_cases)
    then have "(7::rat) = of_int (2 * k)" by simp
    then have "(7::int) = 2 * k" by (metis of_int_eq_iff of_int_numeral)
    then show False by presburger
  qed
  then have a: "render (defaultProps\<lparr>max_p := Fin 7, step := Fin 2\<rparr>) initial
      = Inl (StepNotDivisor (Fin 2) (Fin 7))"
    using render_raises_iff_quotient_not_integer [of "defaultProps\<lparr>max_p := Fin 7, step := Fin 2\<rparr>" 7 2 initial]
    by simp
  have b: "\<exists>v. render (defaultProps\<lparr>step := Fin 0\<rparr>) initial = Inr v"
    using render_raises_iff_quotient_not_integer [of "defaultProps\<lparr>step := Fin 0\<rparr>" 100 0 initial]
    by (simp add: defaultProps_def)
  show ?thesis using a b by simp
qed

section \<open>C7: the round trip of the coordinate mapping\<close>

text \<open>
  C7.  With a track of \<open>T > 0\<close> pixels and \<open>min < max\<close>, for every \<open>v\<close> in [min, max] the
  round trip \<open>_toSliderScale (_toPixelScale v)\<close> is \<open>v\<close>, exactly, over exact rational
  arithmetic; \<open>_toPixelScale v\<close> is \<open>(v - min) * T / (max - min)\<close> and \<open>_toSliderScale x\<close>
  is \<open>x * (max - min) / T + min\<close>.
\<close>

theorem pixel_value_round_trip:
  assumes "trackTotalLength s = Fin T" and "0 < T"
    and "min_p p = Fin a" and "max_p p = Fin b" and "a < b"
    and "a \<le> v" and "v \<le> b"
  shows "toSliderScale p s (toPixelScale p s (Fin v)) = Fin v
    \<and> toPixelScale p s (Fin v) = Fin ((v - a) * T / (b - a))
    \<and> toSliderScale p s (Fin x) = Fin (x * (b - a) / T + a)"
  using assms by (simp add: toSliderScale_def toPixelScale_def)

text \<open>C7 at \<open>v = 40\<close> on the mounted slider with a 100 pixel track.\<close>

theorem pixel_value_round_trip_witness:
  "toSliderScale observedProps (mounted observedProps (Fin 100))
      (toPixelScale observedProps (mounted observedProps (Fin 100)) (Fin 40)) = Fin 40"
  using pixel_value_round_trip
    [of "mounted observedProps (Fin 100)" 100 observedProps 0 100 40]
  by (simp add: mounted_default)

section \<open>C8: snapping is idempotent\<close>

text \<open>
  A snapped offset: with \<open>c\<close> the rounded offset and \<open>q\<close> the whole number of increments
  below it, the result is \<open>q\<close> or \<open>q + 1\<close> increments, as the remainder is less than
  half an increment or not.
\<close>

lemma floor_div_eq:
  fixes x i :: rat
  assumes "0 < i" and "of_int z * i \<le> x" and "x < (of_int z + 1) * i"
  shows "\<lfloor>x / i\<rfloor> = z"
  using assms by (intro floor_unique) (simp_all add: pos_le_divide_eq pos_divide_less_eq)

lemma floor_div_half_eq:
  fixes x i :: rat
  assumes "0 < i" and "of_int z * i \<le> x + i / 2" and "x + i / 2 < (of_int z + 1) * i"
  shows "\<lfloor>x / i + 1 / 2\<rfloor> = z"
proof -
  have "x / i + 1 / 2 = (x + i / 2) / i"
    using assms(1) by (simp add: field_simps)
  then show ?thesis
    using floor_div_eq [OF assms] by simp
qed

lemma trunc_rat_nonneg: "0 \<le> q \<Longrightarrow> trunc_rat q = \<lfloor>q\<rfloor>"
  by (simp add: trunc_rat_def)

lemma snap_Fin:
  fixes v i :: rat
  assumes "0 < i" and "0 \<le> v"
  defines "c \<equiv> \<lfloor>v + 1 / 2\<rfloor>"
  defines "q \<equiv> \<lfloor>of_int c / i\<rfloor>"
  shows "snap (Fin v) (Fin i) =
     (if i / 2 \<le> of_int c - i * of_int q then Fin (i * of_int (q + 1)) else Fin (i * of_int q))"
    and "0 \<le> c" and "0 \<le> q" and "of_int q * i \<le> of_int c" and "of_int c < (of_int q + 1) * i"
proof -
  show c0: "0 \<le> c"
    using assms(2) by (simp add: c_def le_floor_iff)
  then have ci: "0 \<le> (of_int c :: rat) / i"
    using assms(1) by simp
  then show "0 \<le> q"
    by (simp add: q_def le_floor_iff)
  show lo: "of_int q * i \<le> of_int c"
    unfolding q_def using assms(1) by (rule floor_divide_lower)
  show hi: "of_int c < (of_int q + 1) * i"
    unfolding q_def using assms(1) by (rule floor_divide_upper)
  have up: "\<lfloor>of_int c / i + 1 / 2\<rfloor> = q + 1" if "i / 2 \<le> of_int c - i * of_int q"
  proof (rule floor_div_half_eq [OF assms(1)])
    show "of_int (q + 1) * i \<le> of_int c + i / 2"
      using that by (simp add: algebra_simps)
    show "of_int c + i / 2 < (of_int (q + 1) + 1) * i"
      using hi assms(1) by (simp add: algebra_simps)
  qed
  have tr: "trunc_rat (of_int c / i) = q"
    using ci by (simp add: trunc_rat_nonneg q_def)
  show "snap (Fin v) (Fin i) =
     (if i / 2 \<le> of_int c - i * of_int q then Fin (i * of_int (q + 1)) else Fin (i * of_int q))"
    using assms(1) up tr by (simp add: snap_def Let_def c_def [symmetric])
qed

lemma snap_same_round:
  "\<lfloor>r + 1 / 2\<rfloor> = \<lfloor>v + 1 / 2\<rfloor> \<Longrightarrow> snap (Fin r) inc = snap (Fin (v::rat)) inc"
  by (simp add: snap_def)

lemma snap_multiple_gt1:
  fixes i :: rat
  assumes "1 < i" and "0 \<le> k"
  shows "snap (Fin (i * of_int k)) (Fin i) = Fin (i * of_int k)"
proof -
  define c where "c = \<lfloor>i * of_int k + 1 / 2\<rfloor>"
  define e where "e = of_int c - i * of_int k"
  have i0: "0 < i" using assms(1) by simp
  have v0: "0 \<le> i * of_int k" using i0 assms(2) by simp
  have "of_int c \<le> i * of_int k + 1 / 2" "i * of_int k + 1 / 2 < of_int c + 1"
    unfolding c_def by linarith+
  then have e_hi: "e \<le> 1 / 2" and e_lo: "- (1 / 2) < e"
    by (simp_all add: e_def)
  have c_eq: "of_int c = i * of_int k + e"
    by (simp add: e_def)
  note s = snap_Fin(1) [OF i0 v0, folded c_def]
  show ?thesis
  proof (cases "0 \<le> e")
    case True
    have q: "\<lfloor>of_int c / i\<rfloor> = k"
    proof (rule floor_div_eq [OF i0])
      show "of_int k * i \<le> of_int c" using True by (simp add: c_eq algebra_simps)
      show "of_int c < (of_int k + 1) * i"
        using e_hi assms(1) by (simp add: c_eq algebra_simps)
    qed
    have "\<not> i / 2 \<le> of_int c - i * of_int k"
      using e_hi assms(1) by (simp add: c_eq)
    then show ?thesis
      using s by (simp add: q)
  next
    case False
    have "k \<noteq> 0"
    proof
      assume "k = 0"
      then have "c = 0" by (simp add: c_def floor_eq_iff)
      then show False using False \<open>k = 0\<close> by (simp add: e_def)
    qed
    then have k1: "1 \<le> k" using assms(2) by simp
    have q: "\<lfloor>of_int c / i\<rfloor> = k - 1"
    proof (rule floor_div_eq [OF i0])
      show "of_int (k - 1) * i \<le> of_int c"
        using e_lo assms(1) by (simp add: c_eq algebra_simps)
      show "of_int c < (of_int (k - 1) + 1) * i"
        using False by (simp add: c_eq algebra_simps)
    qed
    have "i / 2 \<le> of_int c - i * of_int (k - 1)"
      using e_lo assms(1) by (simp add: c_eq algebra_simps)
    then show ?thesis
      using s by (simp add: q)
  qed
qed

lemma snap_idem:
  fixes v i :: rat
  assumes "0 < i" and "0 \<le> v"
  shows "snap (snap (Fin v) (Fin i)) (Fin i) = snap (Fin v) (Fin i)"
proof -
  define c where "c = \<lfloor>v + 1 / 2\<rfloor>"
  define q where "q = \<lfloor>of_int c / i\<rfloor>"
  define d where "d = of_int c - i * of_int q"
  define k where "k = (if i / 2 \<le> d then q + 1 else q)"
  note f = snap_Fin [OF assms, folded c_def q_def]
  have r: "snap (Fin v) (Fin i) = Fin (i * of_int k)"
    using f(1) by (simp add: k_def d_def)
  have k0: "0 \<le> k"
    using f(3) by (simp add: k_def)
  have d0: "0 \<le> d" and d1: "d < i"
    using f(4,5) by (simp_all add: d_def algebra_simps)
  show ?thesis
  proof (cases "1 < i")
    case True
    then show ?thesis
      unfolding r by (rule snap_multiple_gt1 [OF _ k0])
  next
    case False
    then have i1: "i \<le> 1" by simp
    have "\<lfloor>i * of_int k + 1 / 2\<rfloor> = c"
    proof (cases "i / 2 \<le> d")
      case up: True
      then have ik: "i * of_int k = of_int c + (i - d)"
        by (simp add: k_def d_def algebra_simps)
      have "i \<noteq> 1"
      proof
        assume "i = 1"
        then have "d = 0" by (simp add: d_def q_def)
        then show False using up assms(1) by simp
      qed
      then have "i < 1" using i1 by simp
      then have "i - d < 1 / 2" using up by simp
      moreover have "0 \<le> i - d" using d1 by simp
      ultimately show ?thesis
        unfolding ik by (intro floor_unique) simp_all
    next
      case down: False
      then have ik: "i * of_int k = of_int c - d"
        by (simp add: k_def d_def algebra_simps)
      have "d < 1 / 2" using down i1 by simp
      then show ?thesis
        unfolding ik using d0 by (intro floor_unique) simp_all
    qed
    then have "snap (Fin (i * of_int k)) (Fin i) = snap (Fin v) (Fin i)"
      unfolding c_def by (rule snap_same_round)
    then show ?thesis
      by (simp add: r)
  qed
qed

text \<open>
  C8.  With \<open>min < max\<close>, \<open>step > 0\<close> and a track of \<open>T > 0\<close> pixels, so that the
  increment derived from the step is positive, snapping a snapped offset changes
  nothing, for every offset \<open>x\<close> in [0, T]; over exact rational arithmetic.
\<close>

theorem snap_idempotent:
  assumes "trackTotalLength s = Fin T" and "0 < T"
    and "min_p p = Fin a" and "max_p p = Fin b" and "a < b"
    and "step p = Fin st" and "0 < st"
    and "0 \<le> x" and "x \<le> T"
  shows "snap (snap (Fin x) (defaultStepIncrement p s)) (defaultStepIncrement p s)
       = snap (Fin x) (defaultStepIncrement p s)"
proof -
  have inc: "defaultStepIncrement p s = Fin (T / ((b - a) * st))"
    using assms by (intro defaultStepIncrement_Fin) simp_all
  have "0 < T / ((b - a) * st)"
    using assms by simp
  then show ?thesis
    unfolding inc using \<open>0 \<le> x\<close> by (rule snap_idem)
qed

text \<open>
  C8 on a 250 pixel track with range [0, 100] and step 1, where the increment is 2.5
  pixels: the offset 2 snaps to 2.5, and 2.5 snaps to itself.
\<close>

theorem snap_idempotent_witness:
  "snap (snap (Fin 2) (defaultStepIncrement observedProps (mounted observedProps (Fin 250))))
        (defaultStepIncrement observedProps (mounted observedProps (Fin 250)))
     = Fin (5 / 2)"
proof -
  have m: "mounted observedProps (Fin 250) =
     \<lparr>stored_value = Fin 0, trackMarginH = Fin (77 / 5), trackMarginV = Fin (72 / 5),
      trackTotalLength = Fin 250, thumbRadiiWithBorder = Fin 8, prevPointerX = Fin 0,
      animatedTrackLength = Fin 0, thumbRef = True, effects = []\<rparr>"
    by code_simp
  have v: "snap (Fin 2) (defaultStepIncrement observedProps (mounted observedProps (Fin 250)))
      = Fin (5 / 2)"
    by code_simp
  have t: "trackTotalLength (mounted observedProps (Fin 250)) = Fin 250"
    by (simp add: m)
  have "snap (snap (Fin 2) (defaultStepIncrement observedProps (mounted observedProps (Fin 250))))
        (defaultStepIncrement observedProps (mounted observedProps (Fin 250)))
     = snap (Fin 2) (defaultStepIncrement observedProps (mounted observedProps (Fin 250)))"
    using snap_idempotent [OF t, of observedProps 0 100 1 2] by simp
  then show ?thesis
    by (simp only: v)
qed

section \<open>C9: a change of the track length\<close>

text \<open>
  C9, as stated, fails.  After the value 40 has been set on a 100 pixel track, a layout
  report of width 0 differs from the stored length and is stored, but the thumb is not
  repositioned: it stays at pixel 40, where \<open>_toPixelScale\<close> of the value under the new
  width is 0, and no directive reaches the thumb.  \<open>_aniUpdateValue\<close> skips a track
  of length 0.
\<close>

theorem zero_width_report_leaves_thumb:
  "trackTotalLength (onTrackLayout observedProps (Fin 0)
       (set_value observedProps (Fin 40) (mounted observedProps (Fin 100)))) = Fin 0
   \<and> animatedTrackLength (onTrackLayout observedProps (Fin 0)
       (set_value observedProps (Fin 40) (mounted observedProps (Fin 100)))) = Fin 40
   \<and> toPixelScale observedProps (onTrackLayout observedProps (Fin 0)
       (set_value observedProps (Fin 40) (mounted observedProps (Fin 100)))) (Fin 40) = Fin 0
   \<and> effects (onTrackLayout observedProps (Fin 0)
       (set_value observedProps (Fin 40) (mounted observedProps (Fin 100))))
     = effects (set_value observedProps (Fin 40) (mounted observedProps (Fin 100)))"
  by code_simp

text \<open>
  C9, amended.  With \<open>min < max\<close> and a finite stored value: a layout report of a width
  that differs from the stored length and is not 0 stores the width and repositions the
  thumb to \<open>_toPixelScale\<close> of the stored value under the new width (\<open>moveTo\<close>, then
  \<open>confirmMoveTo\<close>, when the thumb is mounted), which is \<open>(v - min) * W / (max - min)\<close>;
  nothing else changes, so the stored value is the same and neither \<open>onChange\<close> nor
  \<open>onConfirm\<close> is invoked.  A report of width 0 that differs from the stored length
  only stores it.  A report of the stored length changes nothing.
\<close>

theorem layout_change_repositions_thumb:
  assumes "trackTotalLength s = Fin T" and "stored_value s = Fin v"
    and "min_p p = Fin a" and "max_p p = Fin b" and "a < b"
  shows "(W \<noteq> T \<and> W \<noteq> 0 \<longrightarrow>
        onTrackLayout p (Fin W) s =
          s\<lparr>trackTotalLength := Fin W,
            animatedTrackLength :=
              toPixelScale p (s\<lparr>trackTotalLength := Fin W\<rparr>) (stored_value s),
            effects := effects s @
              (if thumbRef s
               then [ThumbMoveTo
                       (toPixelScale p (s\<lparr>trackTotalLength := Fin W\<rparr>) (stored_value s)),
                     ThumbConfirmMoveTo]
               else [])\<rparr>
        \<and> toPixelScale p (s\<lparr>trackTotalLength := Fin W\<rparr>) (stored_value s)
            = Fin ((v - a) * W / (b - a)))
    \<and> (T \<noteq> 0 \<longrightarrow> onTrackLayout p (Fin 0) s = s\<lparr>trackTotalLength := Fin 0\<rparr>)
    \<and> onTrackLayout p (Fin T) s = s"
  using assms
  by (simp add: onTrackLayout_def aniUpdateValue_def get_value_def toPixelScale_def
      moveThumb_def confirmMoveThumb_def emit_def Let_def)

text \<open>
  The amended C9 after the value 40 has been set on a 100 pixel track: a report of 200
  pixels moves the thumb to pixel 80, and a report of 0 pixels only stores the length.
\<close>

theorem layout_change_repositions_thumb_witness:
  "onTrackLayout observedProps (Fin 200)
       (set_value observedProps (Fin 40) (mounted observedProps (Fin 100)))
     = (set_value observedProps (Fin 40) (mounted observedProps (Fin 100)))
         \<lparr>trackTotalLength := Fin 200, animatedTrackLength := Fin 80,
          effects := [OnChange (Fin 40), ThumbMoveTo (Fin 40), ThumbConfirmMoveTo,
                      ThumbMoveTo (Fin 80), ThumbConfirmMoveTo]\<rparr>
   \<and> onTrackLayout observedProps (Fin 0)
       (set_value observedProps (Fin 40) (mounted observedProps (Fin 100)))
     = (set_value observedProps (Fin 40) (mounted observedProps (Fin 100)))
         \<lparr>trackTotalLength := Fin 0\<rparr>"
proof -
  have m: "set_value observedProps (Fin 40) (mounted observedProps (Fin 100)) =
     \<lparr>stored_value = Fin 40, trackMarginH = Fin (77 / 5), trackMarginV = Fin (72 / 5),
      trackTotalLength = Fin 100, thumbRadiiWithBorder = Fin 8, prevPointerX = Fin 0,
      animatedTrackLength = Fin 40, thumbRef = True,
      effects = [OnChange (Fin 40), ThumbMoveTo (Fin 40), ThumbConfirmMoveTo]\<rparr>"
    by code_simp
  have t: "trackTotalLength (set_value observedProps (Fin 40) (mounted observedProps (Fin 100)))
      = Fin 100"
    and v: "stored_value (set_value observedProps (Fin 40) (mounted observedProps (Fin 100)))
      = Fin 40"
    by (simp_all add: m)
  show ?thesis
    using layout_change_repositions_thumb [OF t v, of observedProps 0 100 200]
    by (simp add: m)
qed

section \<open>C10: the range of the stored value\<close>

lemma stored_value_internalSetValue: "stored_value (internalSetValue p v f s) = v"
  by (auto simp add: internalSetValue_def emitChange_def emit_def strict_ne_def Let_def)

lemma stored_value_moveThumb [simp]: "stored_value (moveThumb x s) = stored_value s"
  by (simp add: moveThumb_def emit_def)

lemma stored_value_confirmMoveThumb [simp]: "stored_value (confirmMoveThumb s) = stored_value s"
  by (simp add: confirmMoveThumb_def emit_def)

lemma stored_value_aniUpdateValue [simp]: "stored_value (aniUpdateValue p v s) = stored_value s"
  by (simp add: aniUpdateValue_def Let_def)

text \<open>
  C10, as stated, fails.  The setter stores what it is given: assigning 500 on the
  mounted slider with range [0, 100] stores 500.  A touch can leave the range too: on a
  track of 30.6 pixels a DOWN at the far end rounds the offset to 31 pixels, snaps it to
  30.906 and stores 101.
\<close>

theorem stored_value_leaves_range:
  "stored_value (set_value observedProps (Fin 500) (mounted observedProps (Fin 100))) = Fin 500
   \<and> \<not> Fin 500 \<le> max_p observedProps
   \<and> stored_value (onPanResponderGrant observedProps (Fin 100)
        (mounted observedProps (Fin (153 / 5)))) = Fin 101
   \<and> \<not> Fin 101 \<le> max_p observedProps"
  by code_simp

text \<open>
  C10, amended.  UP and CANCEL leave the stored value as it is.  An external assignment
  through the setter and a value-prop update store the given value as it is, without
  clamping, so the stored value is then within [min, max] exactly when the given value
  is.  DOWN and MOVE events are left out.
\<close>

theorem stored_value_unclamped:
  "stored_value (onPanResponderRelease p d s) = stored_value s
    \<and> stored_value (onPanResponderTerminate p d s) = stored_value s
    \<and> stored_value (set_value p v s) = v
    \<and> stored_value (componentWillReceiveProps p nextProps s) = value_p nextProps
    \<and> (min_p p \<le> stored_value (set_value p v s) \<and> stored_value (set_value p v s) \<le> max_p p)
        = (min_p p \<le> v \<and> v \<le> max_p p)
    \<and> (min_p p \<le> stored_value (componentWillReceiveProps p nextProps s)
         \<and> stored_value (componentWillReceiveProps p nextProps s) \<le> max_p p)
        = (min_p p \<le> value_p nextProps \<and> value_p nextProps \<le> max_p p)"
proof -
  have sv: "stored_value (set_value p v s) = v"
    by (simp add: set_value_def stored_value_internalSetValue)
  have rp: "stored_value (componentWillReceiveProps p nextProps s) = value_p nextProps"
    by (simp add: componentWillReceiveProps_def stored_value_internalSetValue)
  show ?thesis
    unfolding release_effects terminate_effects sv rp by simp
qed

end
